theory Spec2Isabelle
  imports Complex_Main "HOL-Library.Sublist" "HOL-Library.Char_ord" "HOL-Library.List_Lexorder"
begin

section \<open>The GitHub client (github\_handler.py)\<close>

text \<open>
  Every method of \<open>GitHubHandler\<close> performs at most two HTTP requests: the lookup of the
  login behind the token (only while \<open>self.username\<close> is not cached) and the request
  proper. The remote side is given by its answers: \<open>Raised\<close> stands for any exception
  inside the method's own \<open>try\<close> block, \<open>Status s body\<close> for a response with
  status \<open>s\<close> and parsed JSON body. The client keeps the cached login and, as the
  observable trace, the requests sent so far. The answer of \<open>GET /user\<close> is one value
  \<open>user_resp\<close> for the length of one operation.
\<close>

datatype 'a response = Raised | Status nat 'a

text \<open>
  The JSON body of a listing answered with status 200: a list of elements, as the
  contents endpoint gives for a directory, or any other JSON value, of which only the
  Python truth value matters (\<open>JsonOther\<close>). An element is an object with the keys
  \<open>type\<close>, \<open>path\<close> and \<open>sha\<close>, each of which may be missing, or not an object at all
  (\<open>NonObject\<close>). \<open>item_listing\<close> is the answer the contents endpoint gives for
  \<open>item_path\<close>; it is read for entries of type \<open>dir\<close> only.
\<close>

datatype item =
    Item (item_type: "string option") (item_path: "string option") (item_sha: "string option")
      (item_listing: "contents response")
  | NonObject
and contents = JsonList "item list" | JsonOther bool

datatype request =
    GetUser
  | PostRepo string string
  | PutContents string string string
  | GetRepo string
  | GetContents string string
  | DeleteContents string string string

record client =
  username :: "string option"
  requests :: "request list"

text \<open>Python's truth value of \<open>self.username\<close>: \<open>None\<close> and the empty string are false.\<close>

definition truthy :: "string option \<Rightarrow> bool" where
  "truthy u = (case u of None \<Rightarrow> False | Some s \<Rightarrow> s \<noteq> [])"

definition get_username :: "string response \<Rightarrow> client \<Rightarrow> string option \<times> client" where
  "get_username user_resp c =
     (if truthy (username c) then (username c, c)
      else let c1 = c\<lparr>requests := requests c @ [GetUser]\<rparr> in
        (case user_resp of
           Status s login \<Rightarrow>
             if s = 200 then (Some login, c1\<lparr>username := Some login\<rparr>) else (None, c1)
         | Raised \<Rightarrow> (None, c1)))"

definition create_repository ::
  "unit response \<Rightarrow> string \<Rightarrow> string \<Rightarrow> client \<Rightarrow> bool \<times> client" where
  "create_repository resp repo_name description c =
     (let c1 = c\<lparr>requests := requests c @ [PostRepo repo_name description]\<rparr> in
      case resp of
        Status s _ \<Rightarrow>
          if s = 201 then (True, c1)
          else if s = 422 then (False, c1)
          else (False, c1)
      | Raised \<Rightarrow> (False, c1))"

text \<open>\<open>get_repository_info\<close> returns the parsed body; its callers only test the truth
  value, which is what the body of the answer stands for here.\<close>

definition get_repository_info ::
  "string response \<Rightarrow> string \<Rightarrow> bool response \<Rightarrow> client \<Rightarrow> bool option \<times> client" where
  "get_repository_info user_resp repo_name resp c =
     (let (u, c1) = get_username user_resp c in
      if \<not> truthy u then (None, c1)
      else let c2 = c1\<lparr>requests := requests c1 @ [GetRepo repo_name]\<rparr> in
        (case resp of
           Status s repo_info \<Rightarrow> if s = 200 then (Some repo_info, c2) else (None, c2)
         | Raised \<Rightarrow> (None, c2)))"

definition get_repository_contents ::
  "string response \<Rightarrow> string \<Rightarrow> string \<Rightarrow> contents response \<Rightarrow> client
     \<Rightarrow> contents option \<times> client" where
  "get_repository_contents user_resp repo_name path resp c =
     (let (u, c1) = get_username user_resp c in
      if \<not> truthy u then (None, c1)
      else let c2 = c1\<lparr>requests := requests c1 @ [GetContents repo_name path]\<rparr> in
        (case resp of
           Status s body \<Rightarrow>
             if s = 200 then (Some body, c2)
             else if s = 404 then (Some (JsonList []), c2)
             else (None, c2)
         | Raised \<Rightarrow> (None, c2)))"

definition delete_file ::
  "string response \<Rightarrow> string \<Rightarrow> string \<Rightarrow> string \<Rightarrow> unit response \<Rightarrow> client
     \<Rightarrow> bool \<times> client" where
  "delete_file user_resp repo_name file_path sha resp c =
     (let (u, c1) = get_username user_resp c in
      if \<not> truthy u then (False, c1)
      else let c2 = c1\<lparr>requests := requests c1 @ [DeleteContents repo_name file_path sha]\<rparr> in
        (case resp of
           Status s _ \<Rightarrow> if s = 200 then (True, c2) else (False, c2)
         | Raised \<Rightarrow> (False, c2)))"

subsection \<open>clear\_repository\_contents\<close>

text \<open>
  The nested coroutine \<open>find_files_recursively\<close> and its \<open>for item in contents\<close> loop
  (\<open>find_files_loop\<close>). The state is the client together with \<open>files_to_delete\<close>, a list
  of \<open>(path, sha)\<close>. \<open>if not contents: return\<close> covers \<open>None\<close>, \<open>[]\<close> and every other
  false JSON value. The result is \<open>Inr\<close> of the state when the coroutine returns and
  \<open>Inl\<close> of the client when it raises: iterating over a true JSON value that is not a
  list, and subscripting an element with a key it does not have (or that is not an
  object), raise \<open>TypeError\<close> or \<open>KeyError\<close>, which nothing catches before the handler of
  \<open>clear_repository_contents\<close>.
\<close>

definition falsy :: "contents option \<Rightarrow> bool" where
  "falsy contents =
     (case contents of
        None \<Rightarrow> True
      | Some (JsonList items) \<Rightarrow> items = []
      | Some (JsonOther truth) \<Rightarrow> \<not> truth)"

lemma item_listing_size:
  "size_response size (item_listing (Item t p s l)) < Suc (size (Item t p s l) + n)"
  by simp

function find_files_recursively ::
    "string response \<Rightarrow> string \<Rightarrow> string \<Rightarrow> contents response
       \<Rightarrow> client \<times> (string \<times> string) list \<Rightarrow> client + client \<times> (string \<times> string) list"
  and find_files_loop ::
    "string response \<Rightarrow> string \<Rightarrow> item list
       \<Rightarrow> client \<times> (string \<times> string) list \<Rightarrow> client + client \<times> (string \<times> string) list"
  where
  "find_files_recursively user_resp repo_name path resp (c, files) =
     (case get_repository_contents user_resp repo_name path resp c of
        (contents, c1) \<Rightarrow>
          if falsy contents then Inr (c1, files)
          else (case contents of
                  Some (JsonList items) \<Rightarrow> find_files_loop user_resp repo_name items (c1, files)
                | _ \<Rightarrow> Inl c1))"
| "find_files_loop user_resp repo_name [] s = Inr s"
| "find_files_loop user_resp repo_name (NonObject # rest) (c, files) = Inl c"
| "find_files_loop user_resp repo_name (Item None p s l # rest) (c, files) = Inl c"
| "find_files_loop user_resp repo_name (Item (Some t) p s l # rest) (c, files) =
     (if t = ''file'' then
        (case (p, s) of
           (Some path, Some sha) \<Rightarrow>
             find_files_loop user_resp repo_name rest (c, files @ [(path, sha)])
         | _ \<Rightarrow> Inl c)
      else if t = ''dir'' then
        (case p of
           Some path \<Rightarrow>
             (case find_files_recursively user_resp repo_name path l (c, files) of
                Inr s1 \<Rightarrow> find_files_loop user_resp repo_name rest s1
              | Inl c1 \<Rightarrow> Inl c1)
         | None \<Rightarrow> Inl c)
      else find_files_loop user_resp repo_name rest (c, files))"
  by pat_completeness auto
termination
proof (relation "measure (\<lambda>x. case x of
          Inl (u, r, p, resp, s) \<Rightarrow> size_response size resp
        | Inr (u, r, items, s) \<Rightarrow> size_list size items)")
  show "wf (measure (\<lambda>x. case x of
          Inl (u, r, p, resp, s) \<Rightarrow> size_response size (resp :: contents response)
        | Inr (u, r, items, s) \<Rightarrow> size_list size (items :: item list)))"
    by simp
qed (auto simp: get_repository_contents_def Let_def falsy_def
      split: prod.splits if_splits response.splits)

text \<open>The sequential deletion loop; \<open>del_resp i f\<close> is the answer to the \<open>i\<close>-th
  delete request, sent for the collected file \<open>f\<close>. The loop breaks at the first failure.\<close>

fun delete_loop ::
  "string response \<Rightarrow> string \<Rightarrow> (nat \<Rightarrow> string \<times> string \<Rightarrow> unit response) \<Rightarrow> nat
     \<Rightarrow> (string \<times> string) list \<Rightarrow> client \<Rightarrow> bool \<times> client" where
  "delete_loop user_resp repo_name del_resp i [] c = (True, c)"
| "delete_loop user_resp repo_name del_resp i (file_info # rest) c =
     (let (success, c1) =
            delete_file user_resp repo_name (fst file_info) (snd file_info) (del_resp i file_info) c
      in if \<not> success then (False, c1)
         else delete_loop user_resp repo_name del_resp (Suc i) rest c1)"

text \<open>
  The deletion loop cannot raise (\<open>delete_file\<close> catches its own exceptions); an
  exception of the traversal reaches \<open>except Exception\<close>, which returns \<open>False\<close>.
\<close>

definition clear_repository_contents ::
  "string response \<Rightarrow> string \<Rightarrow> contents response
     \<Rightarrow> (nat \<Rightarrow> string \<times> string \<Rightarrow> unit response) \<Rightarrow> client \<Rightarrow> bool \<times> client" where
  "clear_repository_contents user_resp repo_name root_resp del_resp c =
     (case find_files_recursively user_resp repo_name [] root_resp (c, []) of
        Inr (c1, files_to_delete) \<Rightarrow>
          if files_to_delete = [] then (True, c1)
          else delete_loop user_resp repo_name del_resp 0 files_to_delete c1
      | Inl c1 \<Rightarrow> (False, c1))"



definition delete_succeeds :: "unit response \<Rightarrow> bool" where
  "delete_succeeds resp = (case resp of Status s _ \<Rightarrow> s = 200 | Raised \<Rightarrow> False)"


subsection \<open>The synchronizer as the specification describes it\<close>








text \<open>The files for which the deletion loop sends a request: all up to and including
  the first one whose answer is a failure.\<close>

fun attempted ::
  "(nat \<Rightarrow> string \<times> string \<Rightarrow> unit response) \<Rightarrow> nat \<Rightarrow> (string \<times> string) list
     \<Rightarrow> (string \<times> string) list" where
  "attempted del_resp i [] = []"
| "attempted del_resp i (f # fs) =
     f # (if delete_succeeds (del_resp i f) then attempted del_resp (Suc i) fs else [])"

subsection \<open>A remote repository and the answers it gives\<close>






text \<open>Concrete data: a tree of listings with a symbolic link and a directory answered
  404; answers to the delete requests of which the second is refused; a repository
  whose directory \<open>src\<close> is answered 403; and a client that has sent nothing yet.\<close>

definition demo_tree :: "contents response" where
  "demo_tree = Status 200 (JsonList
     [Item (Some ''file'') (Some ''a.txt'') (Some ''s1'') Raised,
      Item (Some ''dir'') (Some ''src'') (Some ''s2'')
        (Status 200 (JsonList
           [Item (Some ''file'') (Some ''src/b.py'') (Some ''s3'') Raised,
            Item (Some ''symlink'') (Some ''src/l'') (Some ''s4'') Raised])),
      Item (Some ''dir'') (Some ''gone'') (Some ''s5'') (Status 404 (JsonOther True)),
      Item (Some ''file'') (Some ''c.md'') (Some ''s6'') Raised])"



definition fresh_client :: client where
  "fresh_client = \<lparr>username = None, requests = []\<rparr>"

section \<open>Python strings and paths\<close>

text \<open>
  Strings are byte lists; a character outside ASCII stands as its UTF-8 bytes. The
  operations below are the ones the bot uses: \<open>str.endswith\<close>, the substring test
  \<open>in\<close>, \<open>str.replace\<close> (for a non-empty pattern), \<open>str.lower\<close> (on ASCII letters; no
  other character lowers to a letter of \<open>template\<close>), \<open>str.strip\<close> and \<open>str.split\<close>
  on ASCII white space, \<open>str\<close> of a natural number, and from \<open>os.path\<close>:
  \<open>basename\<close>, \<open>dirname\<close>, \<open>join\<close> and the extension part of \<open>splitext\<close>.
\<close>

definition endswith :: "string \<Rightarrow> string \<Rightarrow> bool" where
  "endswith s suf = suffix suf s"

definition str_in :: "string \<Rightarrow> string \<Rightarrow> bool" where
  "str_in needle hay = sublist needle hay"

fun replace_str :: "string \<Rightarrow> string \<Rightarrow> string \<Rightarrow> string" where
  "replace_str old new [] = []"
| "replace_str old new (ch # s) =
     (if old \<noteq> [] \<and> prefix old (ch # s)
      then new @ replace_str old new (drop (length old - 1) s)
      else ch # replace_str old new s)"

definition lower_char :: "char \<Rightarrow> char" where
  "lower_char ch =
     (case map_of (zip ''ABCDEFGHIJKLMNOPQRSTUVWXYZ'' ''abcdefghijklmnopqrstuvwxyz'') ch of
        Some l \<Rightarrow> l
      | None \<Rightarrow> ch)"

definition lower :: "string \<Rightarrow> string" where
  "lower s = map lower_char s"

definition is_space :: "char \<Rightarrow> bool" where
  "is_space ch = (ch \<in> set [CHR '' '', CHR 0x09, CHR 0x0A, CHR 0x0B, CHR 0x0C, CHR 0x0D,
                             CHR 0x1C, CHR 0x1D, CHR 0x1E, CHR 0x1F])"

definition strip :: "string \<Rightarrow> string" where
  "strip s = rev (dropWhile is_space (rev (dropWhile is_space s)))"

fun split_words :: "string \<Rightarrow> string \<Rightarrow> string list" where
  "split_words word [] = (if word = [] then [] else [word])"
| "split_words word (ch # s) =
     (if is_space ch then (if word = [] then [] else [word]) @ split_words [] s
      else split_words (word @ [ch]) s)"

definition split :: "string \<Rightarrow> string list" where
  "split s = split_words [] s"

fun str_nat :: "nat \<Rightarrow> string" where
  "str_nat n =
     (if n < 10 then [''0123456789'' ! n]
      else str_nat (n div 10) @ [''0123456789'' ! (n mod 10)])"

definition basename :: "string \<Rightarrow> string" where
  "basename p = rev (takeWhile (\<lambda>ch. ch \<noteq> CHR ''/'') (rev p))"

text \<open>\<open>os.path.dirname\<close> on the relative paths that \<open>os.walk\<close> and \<open>relpath\<close> produce (no
  leading or doubled slash): everything before the last slash.\<close>

definition dirname :: "string \<Rightarrow> string" where
  "dirname p = rev (drop 1 (dropWhile (\<lambda>ch. ch \<noteq> CHR ''/'') (rev p)))"

definition path_join :: "string \<Rightarrow> string \<Rightarrow> string" where
  "path_join a b = (if a = [] then b else if endswith a ''/'' then a @ b else a @ ''/'' @ b)"

text \<open>The second component of \<open>os.path.splitext\<close> on a file name without a slash: the
  part from the last dot on, unless only dots stand before that dot.\<close>

definition splitext_ext :: "string \<Rightarrow> string" where
  "splitext_ext name =
     (let after = rev (takeWhile (\<lambda>ch. ch \<noteq> CHR ''.'') (rev name));
          before = take (length name - length after - 1) name
      in if CHR ''.'' \<in> set name \<and> (\<exists>ch \<in> set before. ch \<noteq> CHR ''.'')
         then CHR ''.'' # after else [])"

section \<open>The staged project (main.py: \_check\_zip\_structure, \_fix\_zip\_structure)\<close>

text \<open>
  The directory an archive is extracted to: a list of named entries in the order
  \<open>os.listdir\<close> (and \<open>os.walk\<close>) reports them, each a file with its content or a
  directory. Names within one directory are distinct in every real directory.
\<close>

datatype node = File string | Dir "(string \<times> node) list"

type_synonym directory = "(string \<times> node) list"

datatype exn = ShutilError string | OSError string | OtherError string

fun str_exn :: "exn \<Rightarrow> string" where
  "str_exn (ShutilError msg) = msg"
| "str_exn (OSError msg) = msg"
| "str_exn (OtherError msg) = msg"

definition listdir :: "directory \<Rightarrow> string list" where
  "listdir d = map fst d"

definition isdir :: "directory \<Rightarrow> string \<Rightarrow> bool" where
  "isdir d name = (case map_of d name of Some (Dir _) \<Rightarrow> True | _ \<Rightarrow> False)"

definition exists_in :: "directory \<Rightarrow> string \<Rightarrow> bool" where
  "exists_in d name = (map_of d name \<noteq> None)"

definition entries_of :: "directory \<Rightarrow> string \<Rightarrow> directory" where
  "entries_of d name = (case map_of d name of Some (Dir es) \<Rightarrow> es | _ \<Rightarrow> [])"

definition remove_entry :: "string \<Rightarrow> directory \<Rightarrow> directory" where
  "remove_entry name d = filter (\<lambda>e. fst e \<noteq> name) d"

definition update_dir :: "string \<Rightarrow> (directory \<Rightarrow> directory) \<Rightarrow> directory \<Rightarrow> directory" where
  "update_dir name f d =
     map (\<lambda>e. if fst e = name then (case snd e of Dir es \<Rightarrow> (fst e, Dir (f es)) | File _ \<Rightarrow> e)
               else e) d"

definition check_zip_structure :: "directory \<Rightarrow> bool" where
  "check_zip_structure root_dir =
     (let contents = listdir root_dir in
      if length contents = 1 \<and> isdir root_dir (contents ! 0) then False else True)"

text \<open>
  \<open>shutil.move(src, dst)\<close> for \<open>src = extract_dir/nested/item\<close> and
  \<open>dst = extract_dir/item\<close>, as the standard library defines it: when \<open>dst\<close> is an
  existing directory the source is moved into it, under \<open>dst/item\<close>, and
  \<open>shutil.Error\<close> is raised if that path exists already; otherwise the source is renamed
  to \<open>dst\<close>. A renamed entry is listed last in its new directory. Renaming onto an
  existing file replaces a file and fails for a directory.
\<close>

definition shutil_move :: "string \<Rightarrow> string \<Rightarrow> string \<Rightarrow> directory \<Rightarrow> exn + directory" where
  "shutil_move extract_dir nested item root_dir =
     (case map_of (entries_of root_dir nested) item of
        None \<Rightarrow> Inl (OSError ''No such file or directory'')
      | Some src \<Rightarrow>
          (case map_of root_dir item of
             Some (Dir dst_entries) \<Rightarrow>
               if exists_in dst_entries item
               then Inl (ShutilError (''Destination path '' @ [CHR 0x27]
                      @ path_join (path_join extract_dir item) item @ [CHR 0x27]
                      @ '' already exists''))
               else Inr (update_dir item (\<lambda>es. es @ [(item, src)])
                           (update_dir nested (remove_entry item) root_dir))
           | Some (File _) \<Rightarrow>
               (case src of
                  File _ \<Rightarrow> Inr (update_dir nested (remove_entry item) (remove_entry item root_dir)
                                 @ [(item, src)])
                | Dir _ \<Rightarrow> Inl (OSError ''File exists''))
           | None \<Rightarrow> Inr (update_dir nested (remove_entry item) root_dir @ [(item, src)])))"

fun move_all :: "string \<Rightarrow> string \<Rightarrow> string list \<Rightarrow> directory \<Rightarrow> exn + directory" where
  "move_all extract_dir nested [] root_dir = Inr root_dir"
| "move_all extract_dir nested (item # items) root_dir =
     (case shutil_move extract_dir nested item root_dir of
        Inl e \<Rightarrow> Inl e
      | Inr moved \<Rightarrow> move_all extract_dir nested items moved)"

definition rmdir :: "string \<Rightarrow> directory \<Rightarrow> exn + directory" where
  "rmdir name d =
     (if isdir d name \<and> entries_of d name = [] then Inr (remove_entry name d)
      else Inl (OSError ''Directory not empty''))"

definition fix_zip_structure :: "string \<Rightarrow> directory \<Rightarrow> exn + directory" where
  "fix_zip_structure extract_dir root_dir =
     (let contents = listdir root_dir in
      if length contents = 1 \<and> isdir root_dir (contents ! 0) then
        (let nested_dir = contents ! 0 in
         case move_all extract_dir nested_dir (listdir (entries_of root_dir nested_dir)) root_dir of
           Inl e \<Rightarrow> Inl e
         | Inr moved \<Rightarrow> rmdir nested_dir moved)
      else Inr root_dir)"

text \<open>Both workflows apply the pair as
  \<open>if not self._check_zip_structure(d): self._fix_zip_structure(d)\<close>.\<close>

definition normalize_layout :: "string \<Rightarrow> directory \<Rightarrow> exn + directory" where
  "normalize_layout extract_dir root_dir =
     (if \<not> check_zip_structure root_dir then fix_zip_structure extract_dir root_dir
      else Inr root_dir)"

text \<open>Two archives: one wrapped in a folder that holds an entry of the folder's own
  name (the usual layout of a Python package), and one wrapped twice.\<close>

definition clash_archive :: directory where
  "clash_archive =
     [(''demo'', Dir [(''setup.py'', File ''s''),
                     (''demo'', Dir [(''main.py'', File ''m'')])])]"

definition nested_archive :: directory where
  "nested_archive = [(''outer'', Dir [(''inner'', Dir [(''main.py'', File ''m'')])])]"

section \<open>The description generator (readme\_generator.py)\<close>

text \<open>
  \<open>os.walk\<close> lists the files of a directory before it descends into the
  subdirectories, each in listing order; the paths are relative to the project directory.
\<close>

fun walk_files :: "string \<Rightarrow> directory \<Rightarrow> (string \<times> string) list" where
  "walk_files rel d =
     concat (map (\<lambda>(name, x). case x of File content \<Rightarrow> [(path_join rel name, content)]
                                      | Dir _ \<Rightarrow> []) d)
     @ concat (map (\<lambda>(name, x). case x of File _ \<Rightarrow> []
                                        | Dir sub \<Rightarrow> walk_files (path_join rel name) sub) d)"

text \<open>A Python \<open>dict\<close> keeps its keys in insertion order: an association list with
  distinct keys, updated in place or extended at the end.\<close>

fun dict_set :: "('k \<times> 'v) list \<Rightarrow> 'k \<Rightarrow> 'v \<Rightarrow> ('k \<times> 'v) list" where
  "dict_set [] k v = [(k, v)]"
| "dict_set (e # d) k v = (if fst e = k then (k, v) # d else e # dict_set d k v)"

definition dict_get :: "('k \<times> 'v) list \<Rightarrow> 'k \<Rightarrow> 'v \<Rightarrow> 'v" where
  "dict_get d k dflt = (case map_of d k of Some v \<Rightarrow> v | None \<Rightarrow> dflt)"

text \<open>\<open>max(d, key=d.get)\<close>: the first key, in iteration order, whose value is maximal.\<close>

fun max_key_from :: "'k \<times> nat \<Rightarrow> ('k \<times> nat) list \<Rightarrow> 'k" where
  "max_key_from best [] = fst best"
| "max_key_from best (e # d) = (if snd best < snd e then max_key_from e d else max_key_from best d)"

definition max_key :: "('k \<times> nat) list \<Rightarrow> 'k option" where
  "max_key d = (case d of [] \<Rightarrow> None | e # rest \<Rightarrow> Some (max_key_from e rest))"

text \<open>\<open>list(set(xs))\<close>: the distinct elements in an order the interpreter's hashing fixes;
  \<open>hash_key\<close> stands for that order.\<close>

definition list_of_set :: "(string \<Rightarrow> nat) \<Rightarrow> string list \<Rightarrow> string list" where
  "list_of_set hash_key xs = sort_key hash_key (remdups xs)"

definition language_extensions :: "(string \<times> string) list" where
  "language_extensions =
     [(''.py'', ''Python''), (''.js'', ''JavaScript''), (''.ts'', ''TypeScript''),
      (''.java'', ''Java''), (''.cpp'', ''C++''), (''.c'', ''C''), (''.cs'', ''C#''),
      (''.php'', ''PHP''), (''.rb'', ''Ruby''), (''.go'', ''Go''), (''.rs'', ''Rust''),
      (''.swift'', ''Swift''), (''.kt'', ''Kotlin''), (''.dart'', ''Dart''),
      (''.html'', ''HTML''), (''.css'', ''CSS''), (''.scss'', ''SCSS''), (''.sass'', ''Sass''),
      (''.vue'', ''Vue.js''), (''.jsx'', ''React JSX''), (''.tsx'', ''React TSX''),
      (''.r'', ''R''), (''.m'', ''Objective-C''), (''.sh'', ''Shell''), (''.bat'', ''Batch''),
      (''.ps1'', ''PowerShell'')]"

definition framework_indicators :: "(string \<times> string list) list" where
  "framework_indicators =
     [(''package.json'', [''Node.js'', ''npm'']),
      (''requirements.txt'', [''Python'']),
      (''Pipfile'', [''Python'', ''Pipenv'']),
      (''setup.py'', [''Python'']),
      (''composer.json'', [''PHP'', ''Composer'']),
      (''Gemfile'', [''Ruby'']),
      (''go.mod'', [''Go'']),
      (''Cargo.toml'', [''Rust'']),
      (''pom.xml'', [''Java'', ''Maven'']),
      (''build.gradle'', [''Java'', ''Gradle'']),
      (''pubspec.yaml'', [''Dart'', ''Flutter'']),
      (''vue.config.js'', [''Vue.js'']),
      (''angular.json'', [''Angular'']),
      (''next.config.js'', [''Next.js'']),
      (''nuxt.config.js'', [''Nuxt.js'']),
      (''gatsby-config.js'', [''Gatsby'']),
      (''webpack.config.js'', [''Webpack'']),
      (''vite.config.js'', [''Vite'']),
      (''tsconfig.json'', [''TypeScript'']),
      (''tailwind.config.js'', [''Tailwind CSS'']),
      (''postcss.config.js'', [''PostCSS''])]"

definition framework_packages :: "(string \<times> string) list" where
  "framework_packages =
     [(''react'', ''React''), (''vue'', ''Vue.js''), (''angular'', ''Angular''),
      (''express'', ''Express.js''), (''koa'', ''Koa.js''), (''fastify'', ''Fastify''),
      (''nest'', ''NestJS''), (''svelte'', ''Svelte''), (''solid-js'', ''Solid.js''),
      (''lit'', ''Lit''), (''bootstrap'', ''Bootstrap''), (''bulma'', ''Bulma''),
      (''material-ui'', ''Material-UI''), (''ant-design'', ''Ant Design''),
      (''chakra-ui'', ''Chakra UI'')]"

text \<open>
  \<open>_detect_frameworks\<close>. \<open>package_deps\<close> is the outcome of the \<open>try\<close> block up to its
  loop, for the \<open>package.json\<close> at the project root: the keys of the merged
  \<open>dependencies\<close> and \<open>devDependencies\<close>, or \<open>None\<close> when reading, parsing or merging
  raises (the bare \<open>except\<close> then passes). The loop itself cannot raise.
\<close>

definition detect_frameworks ::
  "(string \<Rightarrow> nat) \<Rightarrow> string list option \<Rightarrow> directory \<Rightarrow> string list \<Rightarrow> string list" where
  "detect_frameworks hash_key package_deps project_dir files =
     (let frameworks =
            concat (map (\<lambda>file. case map_of framework_indicators (basename file) of
                                   Some fs \<Rightarrow> fs | None \<Rightarrow> []) files);
          from_package =
            (if exists_in project_dir ''package.json'' then
               (case package_deps of
                  Some dependencies \<Rightarrow>
                    map snd (filter (\<lambda>(package, framework).
                                      \<exists>dep \<in> set dependencies. str_in package dep)
                                   framework_packages)
                | None \<Rightarrow> [])
             else [])
      in list_of_set hash_key (frameworks @ from_package))"

definition detect_project_type :: "string list \<Rightarrow> string option" where
  "detect_project_type files =
     (let names = map basename files in
      if ''package.json'' \<in> set names then Some ''Web Application''
      else if \<exists>f \<in> set files. endswith f ''.py'' then
        (if ''requirements.txt'' \<in> set names then Some ''Python Application''
         else if ''manage.py'' \<in> set names then Some ''Django Application''
         else if ''app.py'' \<in> set names \<or> ''main.py'' \<in> set names
           then Some ''Python Application''
         else Some ''Application'')
      else if \<exists>f \<in> set files. endswith f ''.java'' then Some ''Java Application''
      else if \<exists>f \<in> set files. endswith f ''.cpp'' \<or> endswith f ''.c''
        then Some ''C/C++ Application''
      else if \<exists>f \<in> set files. endswith f ''.go'' then Some ''Go Application''
      else if \<exists>f \<in> set files. endswith f ''.rs'' then Some ''Rust Application''
      else if \<exists>f \<in> set files. endswith f ''.php'' then Some ''PHP Application''
      else if \<exists>f \<in> set files. endswith f ''.rb'' then Some ''Ruby Application''
      else Some ''Application'')"

record analysis =
  languages :: "(string \<times> nat) list"
  frameworks :: "string list"
  files :: "string list"
  main_language :: "string option"
  project_type :: "string option"

text \<open>The body of the counting loop, for one file name as \<open>os.walk\<close> yields it.\<close>

definition count_file :: "string \<Rightarrow> (string \<times> nat) list \<Rightarrow> (string \<times> nat) list" where
  "count_file file langs =
     (let ext = splitext_ext file in
      case map_of language_extensions ext of
        Some language \<Rightarrow> dict_set langs language (dict_get langs language 0 + 1)
      | None \<Rightarrow> langs)"

definition analyze_files ::
  "(string \<Rightarrow> nat) \<Rightarrow> string list option \<Rightarrow> directory \<Rightarrow> string list \<Rightarrow> analysis" where
  "analyze_files hash_key package_deps project_dir relative_paths =
     (let langs = fold (\<lambda>p. count_file (basename p)) relative_paths [] in
      \<lparr>languages = langs,
       frameworks = detect_frameworks hash_key package_deps project_dir relative_paths,
       files = relative_paths,
       main_language = (if langs \<noteq> [] then max_key langs else None),
       project_type = detect_project_type relative_paths\<rparr>)"

definition analyze_project ::
  "(string \<Rightarrow> nat) \<Rightarrow> string list option \<Rightarrow> directory \<Rightarrow> analysis" where
  "analyze_project hash_key package_deps project_dir =
     analyze_files hash_key package_deps project_dir (map fst (walk_files [] project_dir))"

text \<open>\<open>generate_readme\<close> appends to one string; the parts are named here in the order in
  which they are appended.\<close>

definition readme_description :: "analysis \<Rightarrow> string" where
  "readme_description a =
     (if truthy (project_type a) then
        ''A '' @ the (project_type a)
        @ (if truthy (main_language a) then '' built with '' @ the (main_language a) else [])
        @ ''.\<newline>\<newline>''
      else ''Project uploaded via Telegram Bot.\<newline>\<newline>'')"

definition readme_technologies :: "analysis \<Rightarrow> string" where
  "readme_technologies a =
     (if languages a \<noteq> [] \<or> frameworks a \<noteq> [] then
        ''## Technologies Used\<newline>\<newline>''
        @ (if languages a \<noteq> [] then
             ''**Languages:**\<newline>''
             @ concat (map (\<lambda>(language, count). ''- '' @ language @ ''\<newline>'')
                         (sort_key (\<lambda>x. - int (snd x)) (languages a)))
             @ ''\<newline>''
           else [])
        @ (if frameworks a \<noteq> [] then
             ''**Frameworks/Libraries:**\<newline>''
             @ concat (map (\<lambda>framework. ''- '' @ framework @ ''\<newline>'') (frameworks a))
             @ ''\<newline>''
           else [])
      else [])"

definition readme_structure :: "analysis \<Rightarrow> string \<Rightarrow> string" where
  "readme_structure a project_name =
     (let dirs = filter (\<lambda>dir_path. dir_path \<noteq> [] \<and> dir_path \<noteq> ''.'') (map dirname (files a));
          sorted_dirs = sort (remdups dirs);
          sorted_files = sort (filter (\<lambda>f. dirname f = []) (files a))
      in ''## Project Structure\<newline>\<newline>'' @ ''```\<newline>'' @ project_name
        @ ''/\<newline>''
         @ concat (map (\<lambda>dir_path. [CHR 0xE2, CHR 0x94, CHR 0x9C, CHR 0xE2, CHR 0x94, CHR 0x80, CHR 0xE2, CHR 0x94, CHR 0x80] @ '' '' @ dir_path @ ''/\<newline>'') sorted_dirs)
         @ concat (map (\<lambda>(i, file).
                     if i = length sorted_files - 1 \<and> sorted_dirs = []
                     then [CHR 0xE2, CHR 0x94, CHR 0x94, CHR 0xE2, CHR 0x94, CHR 0x80, CHR 0xE2, CHR 0x94, CHR 0x80] @ '' '' @ file @ ''\<newline>''
                     else [CHR 0xE2, CHR 0x94, CHR 0x9C, CHR 0xE2, CHR 0x94, CHR 0x80, CHR 0xE2, CHR 0x94, CHR 0x80] @ '' '' @ file @ ''\<newline>'')
                   (enumerate 0 sorted_files))
         @ ''```\<newline>\<newline>'')"

definition readme_getting_started :: "analysis \<Rightarrow> string \<Rightarrow> string" where
  "readme_getting_started a project_name =
     ''## Getting Started\<newline>\<newline>''
     @ (if ''package.json'' \<in> set (map basename (files a)) then
          ''### Prerequisites\<newline>\<newline>'' @ ''- Node.js (v14 or higher)\<newline>''
            @ ''- npm or yarn\<newline>\<newline>''
          @ ''### Installation\<newline>\<newline>'' @ ''```bash\<newline>''
            @ ''# Clone the repository\<newline>''
          @ ''git clone https://github.com/your-username/'' @ project_name @ ''.git\<newline>''
          @ ''cd '' @ project_name @ ''\<newline>\<newline>''
          @ ''# Install dependencies\<newline>'' @ ''npm install\<newline>'' @ ''# or\<newline>''
            @ ''yarn install\<newline>''
          @ ''```\<newline>\<newline>''
          @ ''### Usage\<newline>\<newline>'' @ ''```bash\<newline>''
            @ ''# Start the application\<newline>''
          @ ''npm start\<newline>'' @ ''# or\<newline>'' @ ''yarn start\<newline>''
            @ ''```\<newline>\<newline>''
        else if ''requirements.txt'' \<in> set (map basename (files a)) then
          ''### Prerequisites\<newline>\<newline>'' @ ''- Python 3.7+\<newline>''
            @ ''- pip\<newline>\<newline>''
          @ ''### Installation\<newline>\<newline>'' @ ''```bash\<newline>''
            @ ''# Clone the repository\<newline>''
          @ ''git clone https://github.com/your-username/'' @ project_name @ ''.git\<newline>''
          @ ''cd '' @ project_name @ ''\<newline>\<newline>''
          @ ''# Install dependencies\<newline>'' @ ''pip install -r requirements.txt\<newline>''
          @ ''```\<newline>\<newline>''
          @ ''### Usage\<newline>\<newline>'' @ ''```bash\<newline>''
            @ ''# Run the application\<newline>''
          @ ''python main.py\<newline>'' @ ''```\<newline>\<newline>''
        else
          ''### Installation\<newline>\<newline>'' @ ''```bash\<newline>''
            @ ''# Clone the repository\<newline>''
          @ ''git clone https://github.com/your-username/'' @ project_name @ ''.git\<newline>''
          @ ''cd '' @ project_name @ ''\<newline>''
          @ ''```\<newline>\<newline>''
          @ ''### Usage\<newline>\<newline>''
          @ ''Follow the specific instructions for your project type.\<newline>\<newline>'')"

definition readme_footer :: string where
  "readme_footer =
     ''## Contributing\<newline>\<newline>''
     @ ''1. Fork the repository\<newline>''
     @ ''2. Create your feature branch (`git checkout -b feature/amazing-feature`)\<newline>''
     @ ''3. Commit your changes (`git commit -m '' @ [CHR 0x27] @ ''Add some amazing feature''
       @ [CHR 0x27] @ ''`)\<newline>''
     @ ''4. Push to the branch (`git push origin feature/amazing-feature`)\<newline>''
     @ ''5. Open a Pull Request\<newline>\<newline>''
     @ ''## License\<newline>\<newline>''
     @ ''This project is licensed under the MIT License - see the LICENSE file for details.\<newline>\<newline>''
     @ ''---\<newline>\<newline>''
     @ ''*Project uploaded via Telegram Bot*\<newline>''"

definition generate_readme ::
  "(string \<Rightarrow> nat) \<Rightarrow> string list option \<Rightarrow> directory \<Rightarrow> string \<Rightarrow> string" where
  "generate_readme hash_key package_deps project_dir project_name =
     (let a = analyze_project hash_key package_deps project_dir in
      ''# '' @ project_name @ ''\<newline>\<newline>''
      @ readme_description a
      @ readme_technologies a
      @ readme_structure a project_name
      @ readme_getting_started a project_name
      @ readme_footer)"


section \<open>Uploading the staged project (github\_handler.py: upload\_files)\<close>

text \<open>
  The loop over \<open>files_to_upload\<close>: one \<open>PUT\<close> per file, in the order of \<open>os.walk\<close>;
  \<open>put_resp i path\<close> is the answer to the \<open>i\<close>-th of them. A status other than 200 and
  201, and an exception, are logged and the loop goes on. The staged files are regular
  files that can be read; the request carries the content (base64-encoded in the code).
\<close>

fun upload_loop ::
  "string \<Rightarrow> (nat \<Rightarrow> string \<Rightarrow> unit response) \<Rightarrow> nat \<Rightarrow> (string \<times> string) list
     \<Rightarrow> client \<Rightarrow> nat \<Rightarrow> nat \<times> client" where
  "upload_loop repo_name put_resp i [] c success_count = (success_count, c)"
| "upload_loop repo_name put_resp i ((relative_path, file_content) # rest) c success_count =
     (let c1 = c\<lparr>requests := requests c @ [PutContents repo_name relative_path file_content]\<rparr>
      in case put_resp i relative_path of
           Status s _ \<Rightarrow>
             if s \<in> set [200, 201]
             then upload_loop repo_name put_resp (Suc i) rest c1 (success_count + 1)
             else upload_loop repo_name put_resp (Suc i) rest c1 success_count
         | Raised \<Rightarrow> upload_loop repo_name put_resp (Suc i) rest c1 success_count)"

definition upload_files ::
  "string response \<Rightarrow> string \<Rightarrow> directory \<Rightarrow> (nat \<Rightarrow> string \<Rightarrow> unit response) \<Rightarrow> client
     \<Rightarrow> bool \<times> client" where
  "upload_files user_resp repo_name source_dir put_resp c =
     (let (u, c1) = get_username user_resp c in
      if \<not> truthy u then (False, c1)
      else
        let files_to_upload = walk_files [] source_dir;
            (success_count, c2) = upload_loop repo_name put_resp 0 files_to_upload c1 0
        in (success_count > 0, c2))"

text \<open>When an answer to a \<open>PUT\<close> counts as success, and the request for a staged file.\<close>

definition put_succeeds :: "unit response \<Rightarrow> bool" where
  "put_succeeds resp = (case resp of Status s _ \<Rightarrow> s = 200 \<or> s = 201 | Raised \<Rightarrow> False)"

definition put_request :: "string \<Rightarrow> string \<times> string \<Rightarrow> request" where
  "put_request repo_name f = PutContents repo_name (fst f) (snd f)"

section \<open>The bot (main.py)\<close>

text \<open>
  The state of the process: the configured owner, the map of last accepted timestamps,
  the global upload counter, the \<open>user_data\<close> of the chat context, the GitHub client, and
  the trace of what the bot did on the chat side (replies, edits of a reply, the lookup
  and the download of an uploaded file). Time stamps of \<open>time.time()\<close> are real numbers.
\<close>

record user_data =
  mode :: "string option"
  update_repo_name :: "string option"
  use_template :: "bool option"

datatype chat_event = Reply string | Edit string | GetFile string | Download string

record bot =
  owner_id :: int
  last_message_time :: "int \<Rightarrow> real option"
  upload_counter :: nat
  context_user_data :: user_data
  github :: client
  chat :: "chat_event list"

record document =
  file_name :: string
  file_size :: nat
  file_id :: string

record update =
  effective_user :: "int option"
  message_text :: string
  args :: "string list"
  message_document :: document

text \<open>
  What the surroundings answer during one event: the clock, the formatted date, the
  name of the temporary directory, the answers of GitHub, whether the lookup and the
  download of the uploaded file raise, the outcome of extracting the archive (an
  exception, or the extracted directory, which does not exist when the archive has no
  member), the outcome of reading \<open>package.json\<close> and the hash order of sets.
\<close>

record env =
  env_now :: real
  env_timestamp :: string
  env_temp_dir :: string
  env_user :: "string response"
  env_repo :: "bool response"
  env_create :: "unit response"
  env_listing :: "contents response"
  env_delete :: "nat \<Rightarrow> string \<times> string \<Rightarrow> unit response"
  env_put :: "nat \<Rightarrow> string \<Rightarrow> unit response"
  env_get_file :: "exn option"
  env_download :: "exn option"
  env_extract :: "exn + directory option"
  env_package :: "string list option"
  env_hash :: "string \<Rightarrow> nat"

definition rate_limit_seconds :: real where
  "rate_limit_seconds = 2"

definition MAX_FILE_SIZE :: nat where
  "MAX_FILE_SIZE = 20 * 1024 * 1024"

definition is_authorized_and_not_rate_limited :: "real \<Rightarrow> update \<Rightarrow> bot \<Rightarrow> bool \<times> bot" where
  "is_authorized_and_not_rate_limited now upd b =
     (case effective_user upd of
        None \<Rightarrow> (False, b)
      | Some user_id \<Rightarrow>
          if user_id \<noteq> owner_id b then (False, b)
          else
            let current_time = now;
                last_time = (case last_message_time b user_id of Some t \<Rightarrow> t | None \<Rightarrow> 0)
            in if current_time - last_time < rate_limit_seconds then (False, b)
               else (True, b\<lparr>last_message_time := (last_message_time b)(user_id \<mapsto> current_time)\<rparr>))"

text \<open>Every handler of the bot starts with
  \<open>if not self._is_authorized_and_not_rate_limited(update): return\<close>.\<close>

definition guarded :: "(update \<Rightarrow> bot \<Rightarrow> bot) \<Rightarrow> real \<Rightarrow> update \<Rightarrow> bot \<Rightarrow> bot" where
  "guarded body now upd b =
     (let (ok, b1) = is_authorized_and_not_rate_limited now upd b in
      if \<not> ok then b1 else body upd b1)"

definition reply_text :: "string \<Rightarrow> bot \<Rightarrow> bot" where
  "reply_text msg b = b\<lparr>chat := chat b @ [Reply msg]\<rparr>"

definition edit_text :: "string \<Rightarrow> bot \<Rightarrow> bot" where
  "edit_text msg b = b\<lparr>chat := chat b @ [Edit msg]\<rparr>"

definition readme_mode :: "bool \<Rightarrow> string" where
  "readme_mode template = (if template then ''Template'' else ''Normal'')"

text \<open>An f-string prints a missing login as \<open>None\<close>.\<close>

definition str_login :: "string option \<Rightarrow> string" where
  "str_login u = (case u of Some s \<Rightarrow> s | None \<Rightarrow> ''None'')"

subsection \<open>/upload\<close>

definition upload_template_message :: string where
  "upload_template_message = ''\<newline>'' @ [CHR 0xF0, CHR 0x9F, CHR 0x93, CHR 0xA4]
    @ '' **Mode Upload Template Aktif**\<newline>\<newline>Silakan kirim file ZIP yang berisi project kamu.\<newline>\<newline>**Mode Template:** README.md akan dibuat menggunakan template profesional dari source code, mengganti README.md yang ada di ZIP (jika ada).\<newline>\<newline>**Format yang didukung:** .zip\<newline>**Ukuran maksimal:** 20MB\<newline>            ''"

definition upload_normal_message :: string where
  "upload_normal_message = ''\<newline>'' @ [CHR 0xF0, CHR 0x9F, CHR 0x93, CHR 0xA4]
    @ '' **Mode Upload Aktif**\<newline>\<newline>Silakan kirim file ZIP yang berisi project kamu.\<newline>\<newline>**Mode Normal:** Jika ZIP berisi README.md, akan digunakan yang dari ZIP. Jika tidak ada, akan dibuat README.md basic.\<newline>\<newline>**Format yang didukung:** .zip\<newline>**Ukuran maksimal:** 20MB\<newline>            ''"

definition upload_body :: "update \<Rightarrow> bot \<Rightarrow> bot" where
  "upload_body upd b =
     (let command_text = strip (message_text upd);
          template = (lower command_text = ''/upload template'');
          b1 = b\<lparr>context_user_data :=
                  \<lparr>mode = Some ''upload'', update_repo_name = None,
                   use_template = Some template\<rparr>\<rparr>
      in reply_text (if template then upload_template_message else upload_normal_message) b1)"

definition upload_command :: "env \<Rightarrow> update \<Rightarrow> bot \<Rightarrow> bot" where
  "upload_command e upd b = guarded upload_body (env_now e) upd b"

subsection \<open>/upd\_repo\<close>

definition upd_repo_usage :: string where
  "upd_repo_usage = ''Cara pakai: /upd_repo [nama-repository]\<newline>\<newline>Contoh: /upd_repo my-project''"

definition upd_repo_checking :: "string \<Rightarrow> string" where
  "upd_repo_checking repo_name = ''Mengecek repository '' @ [CHR 0x27] @ repo_name @ [CHR 0x27]
    @ ''...''"

definition upd_repo_not_found :: "string \<Rightarrow> string" where
  "upd_repo_not_found repo_name =
     [CHR 0xE2, CHR 0x9D, CHR 0x8C] @ '' Repository '' @ [CHR 0x27] @ repo_name @ [CHR 0x27]
       @ '' tidak ditemukan di akun GitHub kamu.''"

definition upd_repo_armed :: "string \<Rightarrow> bool \<Rightarrow> string" where
  "upd_repo_armed repo_name template =
     [CHR 0xE2, CHR 0x9C, CHR 0x85] @ '' **Mode Update Aktif** untuk repository **'' @ [CHR 0x27]
       @ repo_name
     @ [CHR 0x27] @ ''**\<newline>'' @ [CHR 0xF0, CHR 0x9F, CHR 0x93, CHR 0x84]
       @ '' Mode README: '' @ readme_mode template
     @ ''\<newline>\<newline>Silakan kirim file ZIP yang berisi konten baru untuk project ini.''"

definition update_repo_body :: "env \<Rightarrow> update \<Rightarrow> bot \<Rightarrow> bot" where
  "update_repo_body e upd b =
     (let b1 = b\<lparr>context_user_data :=
                  (context_user_data b)\<lparr>mode := None, update_repo_name := None\<rparr>\<rparr>
      in if args upd = [] then reply_text upd_repo_usage b1
         else
           let repo_name = hd (args upd);
               b2 = reply_text (upd_repo_checking repo_name) b1;
               (repo_info, g) = get_repository_info (env_user e) repo_name (env_repo e) (github b2);
               b3 = b2\<lparr>github := g\<rparr>
           in if repo_info \<noteq> Some True then edit_text (upd_repo_not_found repo_name) b3
              else
                let template = str_in ''template'' (lower (message_text upd));
                    b4 = b3\<lparr>context_user_data :=
                           \<lparr>mode = Some ''update'', update_repo_name = Some repo_name,
                            use_template = Some template\<rparr>\<rparr>
                in edit_text (upd_repo_armed repo_name template) b4)"

definition update_repo_command :: "env \<Rightarrow> update \<Rightarrow> bot \<Rightarrow> bot" where
  "update_repo_command e upd b = guarded (update_repo_body e) (env_now e) upd b"

text \<open>The arguments a command handler finds in \<open>context.args\<close> are the words of the
  message after the command itself (python-telegram-bot: \<open>message.text.split()[1:]\<close>).\<close>

definition command_args :: "string \<Rightarrow> string list" where
  "command_args text = tl (split text)"

subsection \<open>Staging an uploaded archive\<close>

text \<open>
  Looking the file up, downloading it and extracting it, with the layout check; the
  first exception ends the \<open>try\<close> block. \<open>os.listdir\<close> raises when the archive had no
  member. The result carries the bot as it is when the block is left.
\<close>

definition write_file :: "string \<Rightarrow> string \<Rightarrow> directory \<Rightarrow> exn + directory" where
  "write_file name file_content d =
     (case map_of d name of
        Some (Dir _) \<Rightarrow> Inl (OSError ''Is a directory'')
      | Some (File _) \<Rightarrow> Inr (map (\<lambda>e. if fst e = name then (name, File file_content) else e) d)
      | None \<Rightarrow> Inr (d @ [(name, File file_content)]))"

definition check_and_fix :: "string \<Rightarrow> directory option \<Rightarrow> exn + directory" where
  "check_and_fix extract_dir staged =
     (case staged of
        None \<Rightarrow> Inl (OSError ''No such file or directory'')
      | Some d \<Rightarrow> normalize_layout extract_dir d)"

subsection \<open>The update workflow\<close>

definition update_downloading :: "string \<Rightarrow> string" where
  "update_downloading repo_name =
     [CHR 0xF0, CHR 0x9F, CHR 0x94, CHR 0x84] @ '' **Memperbarui repository '' @ [CHR 0x27]
       @ repo_name @ [CHR 0x27] @ ''**\<newline>\<newline>''
       @ [CHR 0xF0, CHR 0x9F, CHR 0x93, CHR 0xA5] @ '' Mengunduh file ZIP...''"

definition update_extracting :: "string \<Rightarrow> string" where
  "update_extracting repo_name =
     [CHR 0xF0, CHR 0x9F, CHR 0x94, CHR 0x84] @ '' **Memperbarui repository '' @ [CHR 0x27]
       @ repo_name
     @ [CHR 0x27] @ ''**\<newline>\<newline>'' @ [CHR 0xE2, CHR 0x9C, CHR 0x85]
       @ '' ZIP diunduh\<newline>'' @ [CHR 0xF0, CHR 0x9F, CHR 0x93, CHR 0x82]
       @ '' Mengekstrak file...''"

definition update_clearing :: "string \<Rightarrow> string" where
  "update_clearing repo_name =
     [CHR 0xF0, CHR 0x9F, CHR 0x94, CHR 0x84] @ '' **Memperbarui repository '' @ [CHR 0x27]
       @ repo_name
     @ [CHR 0x27] @ ''**\<newline>\<newline>'' @ [CHR 0xE2, CHR 0x9C, CHR 0x85]
       @ '' File diekstrak\<newline>''
       @ [CHR 0xF0, CHR 0x9F, CHR 0x97, CHR 0x91, CHR 0xEF, CHR 0xB8, CHR 0x8F]
       @ '' Membersihkan repository...''"

definition update_clear_failed :: "string \<Rightarrow> string" where
  "update_clear_failed repo_name =
     [CHR 0xE2, CHR 0x9D, CHR 0x8C] @ '' **Gagal membersihkan repository '' @ [CHR 0x27] @ repo_name
     @ [CHR 0x27]
       @ ''**\<newline>\<newline>Mungkin ada masalah dengan izin akses atau API GitHub. Proses update dibatalkan.''"

definition update_uploading :: "string \<Rightarrow> string" where
  "update_uploading repo_name =
     [CHR 0xF0, CHR 0x9F, CHR 0x94, CHR 0x84] @ '' **Memperbarui repository '' @ [CHR 0x27]
       @ repo_name
     @ [CHR 0x27] @ ''**\<newline>\<newline>'' @ [CHR 0xE2, CHR 0x9C, CHR 0x85]
       @ '' Repository dibersihkan\<newline>'' @ [CHR 0xF0, CHR 0x9F, CHR 0x93, CHR 0xA4]
       @ '' Mengunggah file baru...''"

definition update_succeeded :: "string \<Rightarrow> string \<Rightarrow> bool \<Rightarrow> string" where
  "update_succeeded repo_name repo_url template =
     [CHR 0xF0, CHR 0x9F, CHR 0x8E, CHR 0x89] @ '' **Update Berhasil!**\<newline>\<newline>''
       @ [CHR 0xF0, CHR 0x9F, CHR 0x93, CHR 0x81] @ '' Project: '' @ repo_name
     @ ''\<newline>'' @ [CHR 0xF0, CHR 0x9F, CHR 0x94, CHR 0x97] @ '' Repository: '' @ repo_url
     @ ''\<newline>'' @ [CHR 0xF0, CHR 0x9F, CHR 0x93, CHR 0x84] @ '' Mode README: ''
       @ readme_mode template"

definition update_failed :: string where
  "update_failed = [CHR 0xE2, CHR 0x9D, CHR 0x8C]
    @ '' **Update Gagal**\<newline>\<newline>Gagal mengunggah file baru. Repository mungkin dalam keadaan kosong.''"

definition update_error :: "exn \<Rightarrow> string" where
  "update_error ex = [CHR 0xE2, CHR 0x9D, CHR 0x8C]
    @ '' **Error saat memproses update**\<newline>\<newline>Terjadi kesalahan: '' @ str_exn ex"

definition updated_readme :: "string \<Rightarrow> string" where
  "updated_readme project_name = ''# '' @ project_name
    @ ''\<newline>\<newline>Project updated via Telegram Bot\<newline>''"

definition repo_url_of :: "string option \<Rightarrow> string \<Rightarrow> string" where
  "repo_url_of u repo_name = ''https://github.com/'' @ str_login u @ ''/'' @ repo_name"

text \<open>The \<open>try\<close> block of \<open>run_update_workflow\<close>: \<open>Some\<close> exception when it is left by one.\<close>

definition update_try :: "env \<Rightarrow> update \<Rightarrow> string \<Rightarrow> bool \<Rightarrow> bot \<Rightarrow> exn option \<times> bot" where
  "update_try e upd repo_name template b =
     (let doc = message_document upd;
          zip_path = path_join (env_temp_dir e) (file_name doc);
          extract_dir = path_join (env_temp_dir e) ''extracted'';
          b1 = b\<lparr>chat := chat b @ [GetFile (file_id doc)]\<rparr>
      in case env_get_file e of Some ex \<Rightarrow> (Some ex, b1) | None \<Rightarrow>
         let b2 = b1\<lparr>chat := chat b1 @ [Download zip_path]\<rparr>
         in case env_download e of Some ex \<Rightarrow> (Some ex, b2) | None \<Rightarrow>
            let b3 = edit_text (update_extracting repo_name) b2
            in case env_extract e of Inl ex \<Rightarrow> (Some ex, b3) | Inr staged \<Rightarrow>
               (case check_and_fix extract_dir staged of Inl ex \<Rightarrow> (Some ex, b3) | Inr d \<Rightarrow>
                  let b4 = edit_text (update_clearing repo_name) b3;
                      (cleared, g1) = clear_repository_contents (env_user e) repo_name
                                        (env_listing e) (env_delete e) (github b4);
                      b5 = b4\<lparr>github := g1\<rparr>
                  in if \<not> cleared then (None, edit_text (update_clear_failed repo_name) b5)
                     else
                       (case (if template
                              then write_file ''README.md''
                                     (generate_readme (env_hash e) (env_package e) d repo_name) d
                              else if \<not> exists_in d ''README.md''
                              then write_file ''README.md'' (updated_readme repo_name) d
                              else Inr d) of
                          Inl ex \<Rightarrow> (Some ex, b5)
                        | Inr d1 \<Rightarrow>
                            let b6 = edit_text (update_uploading repo_name) b5;
                                (success, g2) = upload_files (env_user e) repo_name d1
                                                  (env_put e) (github b6);
                                b7 = b6\<lparr>github := g2\<rparr>
                            in if success then
                                 let (u, g3) = get_username (env_user e) (github b7);
                                     b8 = b7\<lparr>github := g3\<rparr>
                                 in (None, edit_text (update_succeeded repo_name
                                             (repo_url_of u repo_name) template) b8)
                               else (None, edit_text update_failed b7))))"

definition run_update_workflow :: "env \<Rightarrow> update \<Rightarrow> string \<Rightarrow> bool \<Rightarrow> bot \<Rightarrow> bot" where
  "run_update_workflow e upd repo_name template b =
     (let processing = reply_text (update_downloading repo_name) b in
      case update_try e upd repo_name template processing of
        (None, b1) \<Rightarrow> b1
      | (Some ex, b1) \<Rightarrow> edit_text (update_error ex) b1)"

subsection \<open>Documents: the create workflow and the dispatch on the armed mode\<close>

definition no_repo_name_message :: string where
  "no_repo_name_message = ''Terjadi kesalahan: nama repository untuk di-update tidak ditemukan.''"

definition not_armed_message :: string where
  "not_armed_message = ''Untuk mengunggah atau memperbarui, silakan gunakan perintah /upload atau /upd_repo terlebih dahulu.''"

definition zip_only_message :: string where
  "zip_only_message = [CHR 0xE2, CHR 0x9D, CHR 0x8C]
    @ '' Hanya file ZIP yang didukung. Silakan upload file .zip''"

definition too_large_message :: string where
  "too_large_message =
     [CHR 0xE2, CHR 0x9D, CHR 0x8C] @ '' File terlalu besar. Maksimal ukuran: ''
       @ str_nat (MAX_FILE_SIZE div (1024 * 1024))
     @ ''MB''"

definition create_downloading :: "string \<Rightarrow> bool \<Rightarrow> string" where
  "create_downloading project_name template =
     [CHR 0xF0, CHR 0x9F, CHR 0x94, CHR 0x84] @ '' **Memproses upload project '' @ [CHR 0x27]
       @ project_name
     @ [CHR 0x27] @ ''**\<newline>\<newline>'' @ [CHR 0xF0, CHR 0x9F, CHR 0x93, CHR 0xA5]
       @ '' Mengunduh file ZIP...\<newline>'' @ [CHR 0xF0, CHR 0x9F, CHR 0x93, CHR 0x82]
       @ '' Mode: '' @ readme_mode template"

definition create_extracting :: "string \<Rightarrow> string" where
  "create_extracting project_name =
     [CHR 0xF0, CHR 0x9F, CHR 0x94, CHR 0x84] @ '' **Memproses upload project '' @ [CHR 0x27]
       @ project_name
     @ [CHR 0x27] @ ''**\<newline>\<newline>'' @ [CHR 0xE2, CHR 0x9C, CHR 0x85]
       @ '' File ZIP berhasil diunduh\<newline>'' @ [CHR 0xF0, CHR 0x9F, CHR 0x93, CHR 0x82]
       @ '' Mengekstrak file...''"

definition create_creating :: "string \<Rightarrow> string" where
  "create_creating project_name =
     [CHR 0xF0, CHR 0x9F, CHR 0x94, CHR 0x84] @ '' **Memproses upload project '' @ [CHR 0x27]
       @ project_name
     @ [CHR 0x27] @ ''**\<newline>\<newline>'' @ [CHR 0xE2, CHR 0x9C, CHR 0x85]
       @ '' File ZIP berhasil diunduh\<newline>'' @ [CHR 0xE2, CHR 0x9C, CHR 0x85]
       @ '' File berhasil diekstrak\<newline>'' @ [CHR 0xF0, CHR 0x9F, CHR 0x94, CHR 0x84]
       @ '' Membuat repository GitHub...''"

definition create_repo_failed :: "string \<Rightarrow> string" where
  "create_repo_failed project_name =
     [CHR 0xE2, CHR 0x9D, CHR 0x8C] @ '' **Gagal membuat repository '' @ [CHR 0x27] @ project_name
     @ [CHR 0x27]
       @ ''**\<newline>\<newline>Repository dengan nama tersebut mungkin sudah ada atau ada masalah dengan GitHub API.''"

definition create_uploading :: "string \<Rightarrow> string" where
  "create_uploading project_name =
     [CHR 0xF0, CHR 0x9F, CHR 0x94, CHR 0x84] @ '' **Memproses upload project '' @ [CHR 0x27]
       @ project_name
     @ [CHR 0x27] @ ''**\<newline>\<newline>'' @ [CHR 0xE2, CHR 0x9C, CHR 0x85]
       @ '' File ZIP berhasil diunduh\<newline>'' @ [CHR 0xE2, CHR 0x9C, CHR 0x85]
       @ '' File berhasil diekstrak\<newline>'' @ [CHR 0xE2, CHR 0x9C, CHR 0x85]
       @ '' Repository GitHub berhasil dibuat\<newline>''
       @ [CHR 0xF0, CHR 0x9F, CHR 0x94, CHR 0x84] @ '' Mengupload file...''"

definition create_succeeded :: "string \<Rightarrow> string \<Rightarrow> bool \<Rightarrow> nat \<Rightarrow> string" where
  "create_succeeded project_name repo_url template counter =
     [CHR 0xF0, CHR 0x9F, CHR 0x8E, CHR 0x89] @ '' **Upload Berhasil!**\<newline>\<newline>''
       @ [CHR 0xF0, CHR 0x9F, CHR 0x93, CHR 0x81] @ '' Project: '' @ project_name
     @ ''\<newline>'' @ [CHR 0xF0, CHR 0x9F, CHR 0x94, CHR 0x97] @ '' Repository: '' @ repo_url
     @ ''\<newline>'' @ [CHR 0xF0, CHR 0x9F, CHR 0x93, CHR 0x82] @ '' Mode: ''
       @ readme_mode template
     @ ''\<newline>'' @ [CHR 0xF0, CHR 0x9F, CHR 0x93, CHR 0x8A] @ '' Total upload: ''
       @ str_nat counter"

definition create_failed :: string where
  "create_failed = [CHR 0xE2, CHR 0x9D, CHR 0x8C]
    @ '' **Upload Gagal**\<newline>\<newline>Repository berhasil dibuat tapi gagal upload file. Coba lagi nanti.''"

definition create_error :: "exn \<Rightarrow> string" where
  "create_error ex = [CHR 0xE2, CHR 0x9D, CHR 0x8C]
    @ '' **Error saat memproses upload**\<newline>\<newline>Terjadi kesalahan: '' @ str_exn ex"

definition basic_readme :: "string \<Rightarrow> string" where
  "basic_readme project_name = ''# '' @ project_name
    @ ''\<newline>\<newline>Project uploaded via Telegram Bot\<newline>''"

definition repo_description :: "string \<Rightarrow> string" where
  "repo_description timestamp = ''Project uploaded via Telegram Bot on '' @ timestamp"

text \<open>The \<open>try\<close> block of the create workflow in \<open>handle_document\<close>.\<close>

definition create_try :: "env \<Rightarrow> update \<Rightarrow> string \<Rightarrow> bool \<Rightarrow> bot \<Rightarrow> exn option \<times> bot" where
  "create_try e upd project_name template b =
     (let doc = message_document upd;
          zip_path = path_join (env_temp_dir e) (file_name doc);
          extract_dir = path_join (env_temp_dir e) ''extracted'';
          b1 = b\<lparr>chat := chat b @ [GetFile (file_id doc)]\<rparr>
      in case env_get_file e of Some ex \<Rightarrow> (Some ex, b1) | None \<Rightarrow>
         let b2 = b1\<lparr>chat := chat b1 @ [Download zip_path]\<rparr>
         in case env_download e of Some ex \<Rightarrow> (Some ex, b2) | None \<Rightarrow>
            let b3 = edit_text (create_extracting project_name) b2
            in case env_extract e of Inl ex \<Rightarrow> (Some ex, b3) | Inr staged \<Rightarrow>
               (case check_and_fix extract_dir staged of Inl ex \<Rightarrow> (Some ex, b3) | Inr d \<Rightarrow>
                  let b4 = edit_text (create_creating project_name) b3;
                      (repo_created, g1) = create_repository (env_create e) project_name
                                             (repo_description (env_timestamp e)) (github b4);
                      b5 = b4\<lparr>github := g1\<rparr>
                  in if \<not> repo_created then (None, edit_text (create_repo_failed project_name) b5)
                     else
                       let b6 = edit_text (create_uploading project_name) b5
                       in (case (if template
                                 then write_file ''README.md''
                                        (generate_readme (env_hash e) (env_package e) d project_name) d
                                 else if \<not> exists_in d ''README.md''
                                 then write_file ''README.md'' (basic_readme project_name) d
                                 else Inr d) of
                             Inl ex \<Rightarrow> (Some ex, b6)
                           | Inr d1 \<Rightarrow>
                               let (success, g2) = upload_files (env_user e) project_name d1
                                                     (env_put e) (github b6);
                                   b7 = b6\<lparr>github := g2\<rparr>
                               in if success then
                                    let b8 = b7\<lparr>upload_counter := upload_counter b7 + 1\<rparr>;
                                        (u, g3) = get_username (env_user e) (github b8);
                                        b9 = b8\<lparr>github := g3\<rparr>
                                    in (None, edit_text (create_succeeded project_name
                                                (repo_url_of u project_name) template
                                                (upload_counter b9)) b9)
                                  else (None, edit_text create_failed b7))))"

definition get_use_template :: "user_data \<Rightarrow> bool" where
  "get_use_template ud = (case use_template ud of Some t \<Rightarrow> t | None \<Rightarrow> False)"

definition document_body :: "env \<Rightarrow> update \<Rightarrow> bot \<Rightarrow> bot" where
  "document_body e upd b =
     (let doc = message_document upd;
          ud = context_user_data b
      in if mode ud = Some ''update'' then
           let repo_name = update_repo_name ud;
               template = get_use_template ud;
               b1 = b\<lparr>context_user_data :=
                      \<lparr>mode = None, update_repo_name = None, use_template = None\<rparr>\<rparr>
           in if \<not> truthy repo_name then reply_text no_repo_name_message b1
              else run_update_workflow e upd (the repo_name) template b1
         else if mode ud \<noteq> Some ''upload'' then reply_text not_armed_message b
         else if \<not> endswith (file_name doc) ''.zip'' then reply_text zip_only_message b
         else if file_size doc > MAX_FILE_SIZE then reply_text too_large_message b
         else
           let project_name = replace_str ''.zip'' [] (file_name doc);
               template = get_use_template ud;
               b1 = b\<lparr>context_user_data := ud\<lparr>mode := None, use_template := None\<rparr>\<rparr>;
               processing = reply_text (create_downloading project_name template) b1
           in case create_try e upd project_name template processing of
                (None, b2) \<Rightarrow> b2
              | (Some ex, b2) \<Rightarrow> edit_text (create_error ex) b2)"

definition handle_document :: "env \<Rightarrow> update \<Rightarrow> bot \<Rightarrow> bot" where
  "handle_document e upd b = guarded (document_body e) (env_now e) upd b"

subsection \<open>Vocabulary for the statements about the bot\<close>

text \<open>The time of the caller's last accepted event, 0 when there is none (the default of
  \<open>self.last_message_time.get\<close>); whether the gate lets an event pass; and the bot after
  an accepted event has been recorded.\<close>

definition last_accepted :: "bot \<Rightarrow> int \<Rightarrow> real" where
  "last_accepted b user_id = (case last_message_time b user_id of Some t \<Rightarrow> t | None \<Rightarrow> 0)"

definition accepts :: "real \<Rightarrow> update \<Rightarrow> bot \<Rightarrow> bool" where
  "accepts now upd b =
     (effective_user upd = Some (owner_id b) \<and> now - last_accepted b (owner_id b) \<ge> 2)"

definition accepted_at :: "real \<Rightarrow> bot \<Rightarrow> bot" where
  "accepted_at now b = b\<lparr>last_message_time := (last_message_time b)(owner_id b \<mapsto> now)\<rparr>"

subsection \<open>A concrete chat\<close>

text \<open>The owner 42 with a bot that has seen nothing yet, an archive \<open>demo.zip\<close> of 50 KB
  holding \<open>main.py\<close>, and surroundings in which every request is answered with
  success.\<close>

definition demo_bot :: bot where
  "demo_bot =
     \<lparr>owner_id = 42, last_message_time = Map.empty, upload_counter = 0,
      context_user_data = \<lparr>mode = None, update_repo_name = None, use_template = None\<rparr>,
      github = fresh_client, chat = []\<rparr>"

definition demo_document :: document where
  "demo_document = \<lparr>file_name = ''demo.zip'', file_size = 51200, file_id = ''f1''\<rparr>"

definition demo_env :: env where
  "demo_env =
     \<lparr>env_now = 1000, env_timestamp = ''2024-01-01 12:00:00'', env_temp_dir = ''/tmp/t'',
      env_user = Status 200 ''octo'', env_repo = Status 200 True, env_create = Status 201 (),
      env_listing = demo_tree, env_delete = (\<lambda>i f. Status 200 ()),
      env_put = (\<lambda>i p. Status 201 ()), env_get_file = None, env_download = None,
      env_extract = Inr (Some [(''main.py'', File ''print(1)'')]), env_package = None,
      env_hash = (\<lambda>s. 0)\<rparr>"

definition message_from :: "int \<Rightarrow> string \<Rightarrow> update" where
  "message_from user_id text =
     \<lparr>effective_user = Some user_id, message_text = text, args = command_args text,
      message_document = demo_document\<rparr>"

section \<open>Properties of the GitHub client\<close>













lemma attempted_length: "length (attempted dr i fs) \<le> length fs"
  by (induction fs arbitrary: i) auto

lemma attempted_take: "attempted dr i fs = take (length (attempted dr i fs)) fs"
  by (induction fs arbitrary: i) auto














text \<open>
  Claim C5. \<open>create_repository\<close> reports success exactly for status 201. Status 422
  and every other status but 201 give the same result and the same client state, so the
  caller cannot tell them apart; an exception reports failure as well.
\<close>

theorem create_repository_success_iff_201:
  "(fst (create_repository resp repo_name description c)
      \<longleftrightarrow> (case resp of Status s _ \<Rightarrow> s = 201 | Raised \<Rightarrow> False))
   \<and> (\<forall>s b. s \<noteq> 201 \<longrightarrow>
         create_repository (Status s b) repo_name description c
           = create_repository (Status 422 ()) repo_name description c)
   \<and> create_repository Raised repo_name description c
        = create_repository (Status 422 ()) repo_name description c"
  by (simp add: create_repository_def Let_def split: response.splits)

theorem create_repository_success_iff_201_witness:
  "fst (create_repository (Status 201 ()) ''demo'' ''d'' fresh_client)
   \<and> \<not> fst (create_repository (Status 422 ()) ''demo'' ''d'' fresh_client)
   \<and> create_repository (Status 500 ()) ''demo'' ''d'' fresh_client
        = create_repository (Status 422 ()) ''demo'' ''d'' fresh_client"
proof -
  have "fst (create_repository (Status 201 ()) ''demo'' ''d'' fresh_client)"
    using create_repository_success_iff_201
      [of "Status 201 ()" "''demo''" "''d''" fresh_client, THEN conjunct1]
    by simp
  moreover have "\<not> fst (create_repository (Status 422 ()) ''demo'' ''d'' fresh_client)"
    using create_repository_success_iff_201
      [of "Status 422 ()" "''demo''" "''d''" fresh_client, THEN conjunct1]
    by simp
  moreover have "create_repository (Status 500 ()) ''demo'' ''d'' fresh_client
        = create_repository (Status 422 ()) ''demo'' ''d'' fresh_client"
    using create_repository_success_iff_201
      [of Raised "''demo''" "''d''" fresh_client, THEN conjunct2, THEN conjunct1,
       rule_format, of 500 "()"]
    by simp
  ultimately show ?thesis by blast
qed

section \<open>Properties of layout normalization\<close>

lemma remove_entry_absent: "name \<notin> fst ` set d \<Longrightarrow> remove_entry name d = d"
  by (induction d) (auto simp: remove_entry_def)

lemma update_dir_absent: "name \<notin> fst ` set d \<Longrightarrow> update_dir name f d = d"
  by (induction d) (auto simp: update_dir_def)

lemma remove_entry_Cons:
  "remove_entry name (x # d) = (if fst x = name then remove_entry name d else x # remove_entry name d)"
  by (simp add: remove_entry_def)

lemma update_dir_Cons:
  "update_dir name f (x # d) =
     (if fst x = name then (case snd x of Dir es \<Rightarrow> (fst x, Dir (f es)) | File _ \<Rightarrow> x) else x)
       # update_dir name f d"
  by (simp add: update_dir_def)

lemma map_of_absent: "name \<notin> fst ` set d \<Longrightarrow> map_of d name = None"
  by (simp add: map_of_eq_None_iff)

lemma move_all_hoists:
  "distinct (map fst rest) \<Longrightarrow> w \<notin> fst ` set rest \<Longrightarrow> w \<notin> fst ` set moved
     \<Longrightarrow> fst ` set rest \<inter> fst ` set moved = {}
     \<Longrightarrow> move_all e w (map fst rest) ((w, Dir rest) # moved) = Inr ((w, Dir []) # moved @ rest)"
proof (induction rest arbitrary: moved)
  case Nil
  then show ?case by simp
next
  case (Cons x rest)
  obtain item src where x: "x = (item, src)" by (cases x)
  have iw: "item \<noteq> w" using Cons.prems(2) x by auto
  have im: "item \<notin> fst ` set moved" using Cons.prems(4) x by auto
  have ir: "item \<notin> fst ` set rest" using Cons.prems(1) x by (auto simp: image_iff)
  have rm: "remove_entry item (x # rest) = rest"
    using remove_entry_absent [OF ir] x by (simp add: remove_entry_Cons)
  have up: "update_dir w (remove_entry item) ((w, Dir (x # rest)) # moved) = (w, Dir rest) # moved"
    using update_dir_absent [OF Cons.prems(3)] rm by (simp add: update_dir_Cons)
  have step: "shutil_move e w item ((w, Dir (x # rest)) # moved)
      = Inr ((w, Dir rest) # moved @ [(item, src)])"
    using iw x up
    by (simp add: shutil_move_def entries_of_def map_of_absent [OF im])
  have d: "distinct (map fst rest)" using Cons.prems(1) by simp
  have w1: "w \<notin> fst ` set rest" using Cons.prems(2) by auto
  have w2: "w \<notin> fst ` set (moved @ [(item, src)])" using Cons.prems(3) iw by auto
  have dj: "fst ` set rest \<inter> fst ` set (moved @ [(item, src)]) = {}"
    using Cons.prems(4) ir by auto
  show ?case using step Cons.IH [OF d w1 w2 dj] x by simp
qed

text \<open>The check fails exactly for a root that is one directory and nothing else.\<close>

lemma check_zip_structure_iff:
  "check_zip_structure root_dir \<longleftrightarrow> \<not> (\<exists>w es. root_dir = [(w, Dir es)])"
proof (cases root_dir)
  case Nil
  then show ?thesis by (simp add: check_zip_structure_def listdir_def)
next
  case (Cons x xs)
  obtain n v where x: "x = (n, v)" by (cases x)
  show ?thesis using Cons x
    by (cases v; cases xs) (simp_all add: check_zip_structure_def listdir_def isdir_def)
qed

text \<open>The rest of the claim holds: without such a name clash the wrapper's entries
  become the root and the wrapper is gone; any other root is left as it is; and only
  one level is removed.\<close>

lemma normalize_layout_hoists:
  assumes "distinct (map fst es)" and "w \<notin> fst ` set es"
  shows "normalize_layout e [(w, Dir es)] = Inr es"
proof -
  have "move_all e w (map fst es) [(w, Dir es)] = Inr ((w, Dir []) # es)"
    using move_all_hoists [OF assms(1) assms(2), of "[]" e] by simp
  moreover have "rmdir w ((w, Dir []) # es) = Inr es"
    using assms(2) by (simp add: rmdir_def isdir_def entries_of_def remove_entry_Cons
        remove_entry_absent)
  ultimately show ?thesis
    by (simp add: normalize_layout_def check_zip_structure_def fix_zip_structure_def
        listdir_def isdir_def entries_of_def)
qed

lemma normalize_layout_flat:
  "check_zip_structure root_dir \<Longrightarrow> normalize_layout e root_dir = Inr root_dir"
  by (simp add: normalize_layout_def)

text \<open>
  Claim C3. Layout normalization is meant to hoist the entries of a single wrapping
  directory to the top level and to remove the wrapper. The code does so unless the
  wrapper holds an entry of the wrapper's own name: for the archive \<open>clash_archive\<close>
  (\<open>demo/setup.py\<close>, \<open>demo/demo/main.py\<close>) the check reports a wrapped layout and the
  fix raises \<open>shutil.Error\<close> when it moves \<open>demo/demo\<close> onto the wrapper \<open>demo\<close>, so
  the entries do not become top-level entries and the wrapper stays.
\<close>

theorem fix_zip_structure_name_clash:
  "check_zip_structure clash_archive = False
   \<and> fix_zip_structure ''/tmp/t/extracted'' clash_archive
       = Inl (ShutilError (''Destination path '' @ [CHR 0x27] @ ''/tmp/t/extracted/demo/demo''
                @ [CHR 0x27] @ '' already exists''))"
  by (simp add: check_zip_structure_def fix_zip_structure_def listdir_def isdir_def
      clash_archive_def entries_of_def shutil_move_def exists_in_def update_dir_def
      remove_entry_def path_join_def endswith_def suffix_to_prefix)

lemma normalize_layout_single_pass:
  "normalize_layout e nested_archive = Inr [(''inner'', Dir [(''main.py'', File ''m'')])]"
  unfolding nested_archive_def by (rule normalize_layout_hoists) simp_all

section \<open>Properties of the description generator\<close>




lemma three_orders:
  assumes "distinct d" and "set d = {x, y, z}" and "x \<noteq> y" and "x \<noteq> z" and "y \<noteq> z"
  shows "d = [x, y, z] \<or> d = [x, z, y] \<or> d = [y, x, z] \<or> d = [y, z, x]
       \<or> d = [z, x, y] \<or> d = [z, y, x]"
proof -
  have "length d = card {x, y, z}" using assms(1,2) distinct_card by fastforce
  then have "length d = 3" using assms(3-5) by simp
  then obtain a b c where d: "d = [a, b, c]"
    by (cases d; cases "tl d"; cases "tl (tl d)") auto
  have abc: "{a, b, c} = {x, y, z}" using assms(2) d by simp
  have ne: "a \<noteq> b" "a \<noteq> c" "b \<noteq> c" using assms(1) d by auto
  have "a = x \<or> a = y \<or> a = z" "b = x \<or> b = y \<or> b = z" "c = x \<or> c = y \<or> c = z"
    using abc by blast+
  then show ?thesis unfolding d using ne by blast
qed

lemma ext_py: "map_of language_extensions ''.py'' = Some ''Python''"
  by (simp add: language_extensions_def)

lemma ext_js: "map_of language_extensions ''.js'' = Some ''JavaScript''"
  by (simp add: language_extensions_def)

lemma count_file_py_js:
  "count_file ''a.py'' langs = dict_set langs ''Python'' (dict_get langs ''Python'' 0 + 1)"
  "count_file ''b.py'' langs = dict_set langs ''Python'' (dict_get langs ''Python'' 0 + 1)"
  "count_file ''c.js'' langs = dict_set langs ''JavaScript'' (dict_get langs ''JavaScript'' 0 + 1)"
  by (simp_all add: count_file_def splitext_ext_def ext_py ext_js)

lemma basename_py_js:
  "basename ''a.py'' = ''a.py''" "basename ''b.py'' = ''b.py''" "basename ''c.js'' = ''c.js''"
  by (simp_all add: basename_def)

lemma analyze_py_first:
  assumes "fs = [''a.py'', ''b.py'', ''c.js''] \<or> fs = [''a.py'', ''c.js'', ''b.py'']
         \<or> fs = [''b.py'', ''a.py'', ''c.js''] \<or> fs = [''b.py'', ''c.js'', ''a.py'']"
  shows "languages (analyze_files h pkg d fs) = [(''Python'', 2), (''JavaScript'', 1)]"
    and "main_language (analyze_files h pkg d fs) = Some ''Python''"
  using assms
  by (auto simp: analyze_files_def basename_py_js count_file_py_js dict_get_def max_key_def)

lemma analyze_js_first:
  assumes "fs = [''c.js'', ''a.py'', ''b.py''] \<or> fs = [''c.js'', ''b.py'', ''a.py'']"
  shows "languages (analyze_files h pkg d fs) = [(''JavaScript'', 1), (''Python'', 2)]"
    and "main_language (analyze_files h pkg d fs) = Some ''Python''"
  using assms
  by (auto simp: analyze_files_def basename_py_js count_file_py_js dict_get_def max_key_def)

lemma walk_files_flat:
  "walk_files [] [(n1, File c1), (n2, File c2), (n3, File c3)] = [(n1, c1), (n2, c2), (n3, c3)]"
  by (simp add: path_join_def)

text \<open>
  Claim C8. For a project directory that holds exactly the files \<open>a.py\<close>, \<open>b.py\<close> and
  \<open>c.js\<close>, in whatever order the directory lists them, the tally has exactly the two
  entries Python with count 2 and JavaScript with count 1, and the main language is
  Python. The result is a function of the directory alone; it does not depend on the
  listing order, on the hash order of sets or on the file contents.
\<close>

theorem main_language_two_py_one_js:
  assumes "distinct d"
    and "set d = {(''a.py'', File ca), (''b.py'', File cb), (''c.js'', File cc)}"
  shows "set (languages (analyze_project hash_key package_deps d))
           = {(''Python'', 2), (''JavaScript'', 1)}
       \<and> length (languages (analyze_project hash_key package_deps d)) = 2
       \<and> main_language (analyze_project hash_key package_deps d) = Some ''Python''"
proof -
  let ?x = "(''a.py'', File ca)" and ?y = "(''b.py'', File cb)" and ?z = "(''c.js'', File cc)"
  have "d = [?x, ?y, ?z] \<or> d = [?x, ?z, ?y] \<or> d = [?y, ?x, ?z] \<or> d = [?y, ?z, ?x]
       \<or> d = [?z, ?x, ?y] \<or> d = [?z, ?y, ?x]"
    using assms by (intro three_orders) simp_all
  then consider
    (py) "map fst (walk_files [] d) \<in> {[''a.py'', ''b.py'', ''c.js''], [''a.py'', ''c.js'', ''b.py''],
             [''b.py'', ''a.py'', ''c.js''], [''b.py'', ''c.js'', ''a.py'']}"
    | (js) "map fst (walk_files [] d) \<in> {[''c.js'', ''a.py'', ''b.py''], [''c.js'', ''b.py'', ''a.py'']}"
    by (elim disjE) (simp_all add: walk_files_flat del: walk_files.simps)
  then show ?thesis
  proof cases
    case py
    then show ?thesis
      using analyze_py_first [of "map fst (walk_files [] d)" hash_key package_deps d]
      by (auto simp: analyze_project_def simp del: walk_files.simps)
  next
    case js
    then show ?thesis
      using analyze_js_first [of "map fst (walk_files [] d)" hash_key package_deps d]
      by (auto simp: analyze_project_def simp del: walk_files.simps)
  qed
qed

theorem main_language_two_py_one_js_witness:
  "main_language (analyze_project (\<lambda>s. 0) None
      [(''c.js'', File ''1''), (''a.py'', File ''2''), (''b.py'', File ''3'')]) = Some ''Python''
   \<and> main_language (analyze_project (\<lambda>s. 0) None
      [(''b.py'', File ''3''), (''c.js'', File ''1''), (''a.py'', File ''2'')]) = Some ''Python''"
  using main_language_two_py_one_js
      [of "[(''c.js'', File ''1''), (''a.py'', File ''2''), (''b.py'', File ''3'')]" "''2''" "''3''"
          "''1''" "\<lambda>s. 0" None]
    main_language_two_py_one_js
      [of "[(''b.py'', File ''3''), (''c.js'', File ''1''), (''a.py'', File ''2'')]" "''2''" "''3''"
          "''1''" "\<lambda>s. 0" None]
  by (simp add: insert_commute)

section \<open>Properties of the bot\<close>

lemma gate_eq:
  "is_authorized_and_not_rate_limited now upd b =
     (if accepts now upd b then (True, accepted_at now b) else (False, b))"
  by (auto simp: is_authorized_and_not_rate_limited_def accepts_def accepted_at_def
      last_accepted_def rate_limit_seconds_def Let_def split: option.splits)

lemma guarded_eq:
  "guarded body now upd b = (if accepts now upd b then body upd (accepted_at now b) else b)"
  by (simp add: guarded_def gate_eq)

text \<open>
  Claim C2. The gate accepts an event exactly when the caller is the configured owner
  and at least 2 seconds have passed since the caller's last accepted event (since time
  0 when there is none). When it accepts, the only change is that the caller's entry of
  the time-stamp map becomes the current time; when it rejects, the bot is unchanged.
  Every handler runs its body only behind the gate: on a rejected event the handler
  returns the bot as it was (no reply, no request, no change of any state), for an
  arbitrary body and so for \<open>/upload\<close>, \<open>/upd_repo\<close> and documents in particular.
\<close>

theorem gate_accepts_owner_after_cooldown:
  "is_authorized_and_not_rate_limited now upd b =
     (if effective_user upd = Some (owner_id b) \<and> now - last_accepted b (owner_id b) \<ge> 2
      then (True, b\<lparr>last_message_time := (last_message_time b)(owner_id b \<mapsto> now)\<rparr>)
      else (False, b))
   \<and> guarded body now upd b =
       (if effective_user upd = Some (owner_id b) \<and> now - last_accepted b (owner_id b) \<ge> 2
        then body upd (b\<lparr>last_message_time := (last_message_time b)(owner_id b \<mapsto> now)\<rparr>)
        else b)
   \<and> (\<not> (effective_user upd = Some (owner_id b) \<and> env_now e - last_accepted b (owner_id b) \<ge> 2)
        \<longrightarrow> upload_command e upd b = b \<and> update_repo_command e upd b = b
            \<and> handle_document e upd b = b)"
  using gate_eq [of now upd b] guarded_eq [of body now upd b]
    guarded_eq [of upload_body "env_now e" upd b]
    guarded_eq [of "update_repo_body e" "env_now e" upd b]
    guarded_eq [of "document_body e" "env_now e" upd b]
  by (simp add: accepts_def accepted_at_def upload_command_def update_repo_command_def
      handle_document_def)

theorem gate_accepts_owner_after_cooldown_witness:
  "fst (is_authorized_and_not_rate_limited 1000 (message_from 42 ''/upload'') demo_bot)
   \<and> last_message_time
         (snd (is_authorized_and_not_rate_limited 1000 (message_from 42 ''/upload'') demo_bot)) 42
       = Some 1000
   \<and> upload_command (demo_env\<lparr>env_now := 1001\<rparr>) (message_from 42 ''/upload'')
         (accepted_at 1000 demo_bot) = accepted_at 1000 demo_bot
   \<and> handle_document demo_env (message_from 7 ''/upload'') demo_bot = demo_bot"
proof -
  note t = gate_accepts_owner_after_cooldown
  have 1: "is_authorized_and_not_rate_limited 1000 (message_from 42 ''/upload'') demo_bot
      = (True, accepted_at 1000 demo_bot)"
    using t [of 1000 "message_from 42 ''/upload''" demo_bot, THEN conjunct1]
    by (simp add: message_from_def demo_bot_def last_accepted_def accepted_at_def)
  have 2: "upload_command (demo_env\<lparr>env_now := 1001\<rparr>) (message_from 42 ''/upload'')
         (accepted_at 1000 demo_bot) = accepted_at 1000 demo_bot"
    using t [of 0 "message_from 42 ''/upload''" "accepted_at 1000 demo_bot" undefined
        "demo_env\<lparr>env_now := 1001\<rparr>", THEN conjunct2, THEN conjunct2]
    by (simp add: message_from_def demo_bot_def last_accepted_def accepted_at_def)
  have 3: "handle_document demo_env (message_from 7 ''/upload'') demo_bot = demo_bot"
    using t [of 0 "message_from 7 ''/upload''" demo_bot undefined demo_env,
        THEN conjunct2, THEN conjunct2]
    by (simp add: message_from_def demo_bot_def)
  show ?thesis using 1 2 3 by (simp add: accepted_at_def demo_bot_def)
qed








end
